theory Spec2Isabelle
  imports Main "HOL-Library.Sublist" "HOL-Library.Product_Lexorder"
begin

section \<open>Minimarket Aurelion: the analytics pipeline of \<^verbatim>\<open>2. programa.py\<close>\<close>

text \<open>
  The program orchestrates a batch job over four tables (productos, clientes, ventas,
  detalle): it loads them, validates their columns, checks referential integrity, cleans
  them, integrates them and computes metrics, and (unless run in fast mode) exports the
  results. The embedding below follows the source function by function. Exceptions are
  values of type \<open>exn\<close>; every function that can raise returns \<open>exn + 'a\<close>; logging and
  the calls of the stages are recorded in an explicit trace of events.
\<close>

subsection \<open>Tables\<close>

text \<open>
  A pandas DataFrame: its column labels and its rows, every row holding one cell per
  column, in the order of the columns. A cell is \<open>Some v\<close> or the missing value
  \<open>None\<close> (NaN).
\<close>

record 'v dataframe =
  columns :: "string list"
  filas :: "'v option list list"

subsection \<open>Exceptions and events\<close>

datatype exn =
    ValueError string "string list"
      \<comment> \<open>\<^verbatim>\<open>ValueError(f"Faltan columnas en {nombre}: {set(faltantes_requeridos)}")\<close>\<close>
  | KeyError string
      \<comment> \<open>a column label that the frame does not have\<close>
  | Raised string
      \<comment> \<open>any exception raised by a collaborator or by the file system\<close>

datatype etapa = Carga | Integridad | Limpieza | Integracion | Metricas | Exportacion

datatype evento =
    Info string
      \<comment> \<open>\<^verbatim>\<open>logger.info\<close>, named by its event\<close>
  | Advertencia string string "string list"
      \<comment> \<open>\<^verbatim>\<open>logger.warning\<close>: event, table, listed items\<close>
  | ErrorRegistrado string
      \<comment> \<open>\<^verbatim>\<open>manejar_error(etapa, e)\<close>\<close>
  | Inicio etapa
  | Fin etapa

type_synonym 'a corrida = "evento list \<times> (exn + 'a)"

definition traza :: "'a corrida \<Rightarrow> evento list" where
  "traza m = fst m"

definition valor :: "'a corrida \<Rightarrow> exn + 'a" where
  "valor m = snd m"

definition retorna :: "'a \<Rightarrow> 'a corrida" where
  "retorna x = ([], Inr x)"

definition lanza :: "exn \<Rightarrow> 'a corrida" where
  "lanza e = ([], Inl e)"

definition emite :: "evento \<Rightarrow> unit corrida" where
  "emite ev = ([ev], Inr ())"

text \<open>Sequencing: an exception ends the run, and nothing after it is executed.\<close>

definition luego :: "'a corrida \<Rightarrow> ('a \<Rightarrow> 'b corrida) \<Rightarrow> 'b corrida" where
  "luego m f =
     (case snd m of
        Inl e \<Rightarrow> (fst m, Inl e)
      | Inr x \<Rightarrow> (fst m @ fst (f x), snd (f x)))"

text \<open>A call of a collaborator that returns a value or raises, with no event.\<close>

definition llama :: "exn + 'a \<Rightarrow> 'a corrida" where
  "llama r = ([], r)"

text \<open>\<^verbatim>\<open>manejar_error(etapa, error)\<close>: records the error, raises nothing.\<close>

definition manejar_error :: "string \<Rightarrow> unit corrida" where
  "manejar_error etapa_nombre = emite (ErrorRegistrado etapa_nombre)"

text \<open>\<^verbatim>\<open>try: m  except Exception as e: manejar_error(etapa, e); raise\<close>\<close>

definition intenta :: "string \<Rightarrow> 'a corrida \<Rightarrow> 'a corrida" where
  "intenta etapa_nombre m =
     (case snd m of
        Inl e \<Rightarrow> (fst m @ [ErrorRegistrado etapa_nombre], Inl e)
      | Inr x \<Rightarrow> m)"

subsection \<open>Schema validation (\<^verbatim>\<open>cargar_datasets\<close>, lines 148 to 180)\<close>

definition columnas_esperadas :: "(string \<times> string list) list" where
  "columnas_esperadas =
     [(''productos'', [''id_producto'', ''nombre_producto'', ''categoria'', ''precio_unitario'']),
      (''clientes'', [''id_cliente'', ''nombre_cliente'', ''email'', ''ciudad'', ''fecha_alta'']),
      (''ventas'', [''id_venta'', ''fecha'', ''id_cliente'', ''medio_pago'', ''canal'']),
      (''detalle'', [''id_venta'', ''id_producto'', ''cantidad'', ''precio_unitario'', ''importe''])]"

definition columnas_opcionales :: "(string \<times> string list) list" where
  "columnas_opcionales = [(''detalle'', [''nombre_producto''])]"

text \<open>\<^verbatim>\<open>columnas_opcionales.get(nombre, set())\<close>\<close>

definition opcionales_de :: "string \<Rightarrow> string list" where
  "opcionales_de nombre =
     (case map_of columnas_opcionales nombre of None \<Rightarrow> [] | Some cs \<Rightarrow> cs)"

text \<open>
  One iteration of the loop over \<^verbatim>\<open>columnas_esperadas.items()\<close>. The Python sets are
  lists here, in the order the source writes them; only the set of a list of columns
  has a meaning.
\<close>

definition validar_tabla :: "string \<Rightarrow> string list \<Rightarrow> string list \<Rightarrow> unit corrida" where
  "validar_tabla nombre cols_obligatorias cols_df =
     (let opcionales = opcionales_de nombre;
          faltantes = filter (\<lambda>c. c \<notin> set cols_df) cols_obligatorias;
          faltantes_requeridos = filter (\<lambda>c. c \<notin> set opcionales) faltantes
      in if faltantes_requeridos \<noteq> []
         then luego (manejar_error ''ingesta'')
                (\<lambda>_. lanza (ValueError nombre faltantes_requeridos))
         else let faltantes_opcionales = filter (\<lambda>c. c \<notin> set cols_df) opcionales
              in if faltantes_opcionales \<noteq> []
                 then emite (Advertencia ''optional_column_missing'' nombre faltantes_opcionales)
                 else retorna ())"

text \<open>The dictionary that maps the name of a table to its frame.\<close>

definition tabla_de ::
  "'v dataframe \<Rightarrow> 'v dataframe \<Rightarrow> 'v dataframe \<Rightarrow> 'v dataframe \<Rightarrow> string \<Rightarrow> 'v dataframe" where
  "tabla_de df_productos df_clientes df_ventas df_detalle nombre =
     (if nombre = ''productos'' then df_productos
      else if nombre = ''clientes'' then df_clientes
      else if nombre = ''ventas'' then df_ventas
      else df_detalle)"

fun validar_bucle :: "(string \<Rightarrow> string list) \<Rightarrow> (string \<times> string list) list \<Rightarrow> unit corrida" where
  "validar_bucle cols [] = retorna ()"
| "validar_bucle cols ((nombre, cols_obligatorias) # resto) =
     luego (validar_tabla nombre cols_obligatorias (cols nombre))
       (\<lambda>_. validar_bucle cols resto)"

definition validar_columnas ::
  "'v dataframe \<Rightarrow> 'v dataframe \<Rightarrow> 'v dataframe \<Rightarrow> 'v dataframe \<Rightarrow> unit corrida" where
  "validar_columnas df_productos df_clientes df_ventas df_detalle =
     validar_bucle (\<lambda>nombre. columns (tabla_de df_productos df_clientes df_ventas df_detalle nombre))
       columnas_esperadas"

subsection \<open>The pandas operations of the enrichment (lines 182 to 188)\<close>

fun posicion :: "'a \<Rightarrow> 'a list \<Rightarrow> nat option" where
  "posicion x [] = None"
| "posicion x (y # ys) = (if x = y then Some 0 else map_option Suc (posicion x ys))"








definition marco :: "string list \<Rightarrow> 'v option list list \<Rightarrow> 'v dataframe" where
  "marco cs rs = \<lparr>columns = cs, filas = rs\<rparr>"


subsection \<open>The collaborators of the pipeline\<close>









subsection \<open>\<^verbatim>\<open>cargar_datasets\<close>\<close>





subsection \<open>\<^verbatim>\<open>limpiar_datos\<close>\<close>



subsection \<open>\<^verbatim>\<open>calcular_metricas\<close>\<close>




subsection \<open>\<^verbatim>\<open>exportar_resultados\<close>\<close>



subsection \<open>\<^verbatim>\<open>ejecutar_pipeline\<close>\<close>



text \<open>
  The handler of \<^verbatim>\<open>ejecutar_pipeline\<close> (lines 382 to 389): the error is recorded, the two
  failure records are written, and the exception is raised again.
\<close>

definition intenta_pipeline :: "'a corrida \<Rightarrow> 'a corrida" where
  "intenta_pipeline m =
     (case snd m of
        Inl e \<Rightarrow>
          (fst m @ [ErrorRegistrado ''pipeline'', Info ''metrics_failed'', Info ''performance_failed''],
           Inl e)
      | Inr x \<Rightarrow> m)"



text \<open>The marks of the stages in a trace, and the order in which a full run sets them.\<close>

fun es_marca :: "evento \<Rightarrow> bool" where
  "es_marca (Inicio s) = True"
| "es_marca (Fin s) = True"
| "es_marca _ = False"

definition marcas :: "evento list \<Rightarrow> evento list" where
  "marcas t = filter es_marca t"



subsection \<open>A concrete run\<close>

text \<open>
  The tables of the scenario of the specification (one product sold once), with a second
  product and a line of detail whose product, 99, is not among the products. The
  collaborators of this run read these tables, report the orphan, clean nothing and
  compute empty metrics; \<open>disco\<close> is what creating a directory answers and \<open>ri\<close>
  what the integrity check answers.
\<close>

definition ej_productos :: "string dataframe" where
  "ej_productos = marco [''id_producto'', ''nombre_producto'', ''categoria'', ''precio_unitario'']
     [[Some ''1'', Some ''Bread'', Some ''Bakery'', Some ''2.0''],
      [Some ''2'', Some ''Milk'', Some ''Dairy'', Some ''1.5'']]"

definition ej_clientes :: "string dataframe" where
  "ej_clientes = marco [''id_cliente'', ''nombre_cliente'', ''email'', ''ciudad'', ''fecha_alta'']
     [[Some ''10'', Some ''Ana'', Some ''ana@example.org'', Some ''Lima'', Some ''2024-01-01'']]"

definition ej_ventas :: "string dataframe" where
  "ej_ventas = marco [''id_venta'', ''fecha'', ''id_cliente'', ''medio_pago'', ''canal'']
     [[Some ''100'', Some ''2025-01-05'', Some ''10'', Some ''cash'', Some ''store'']]"

definition ej_detalle :: "string dataframe" where
  "ej_detalle = marco [''id_venta'', ''id_producto'', ''cantidad'', ''precio_unitario'', ''importe'']
     [[Some ''100'', Some ''1'', Some ''3'', Some ''2.0'', Some ''6.0''],
      [Some ''100'', Some ''99'', Some ''1'', Some ''4.0'', Some ''4.0'']]"






subsection \<open>Notions used in the statements and proofs\<close>



text \<open>A trace of marks whose last stage has begun and not ended.\<close>

definition abierta :: "evento list \<Rightarrow> bool" where
  "abierta t \<longleftrightarrow> t \<noteq> [] \<and> (\<exists>s. last t = Inicio s)"

text \<open>
  A run goes through the stages \<open>A\<close>: when it returns, its marks are \<open>A\<close>; when it
  raises, its marks are a strict prefix of \<open>A\<close> that ends inside a stage.
\<close>

definition etapas :: "'a corrida \<Rightarrow> evento list \<Rightarrow> bool" where
  "etapas m A \<longleftrightarrow>
     (case valor m of
        Inr x \<Rightarrow> marcas (traza m) = A
      | Inl e \<Rightarrow> strict_prefix (marcas (traza m)) A \<and> abierta (marcas (traza m)))"

text \<open>A run that sets no mark, and a run that sets no mark and cannot raise.\<close>

definition hoja :: "'a corrida \<Rightarrow> bool" where
  "hoja m \<longleftrightarrow> marcas (traza m) = []"

definition segura :: "'a corrida \<Rightarrow> bool" where
  "segura m \<longleftrightarrow> marcas (traza m) = [] \<and> (\<exists>x. valor m = Inr x)"

section \<open>The collaborators as the specification describes them\<close>

text \<open>
  The functions of \<^verbatim>\<open>aurelion.pipeline_utils\<close> are not among the sources of the
  repository. Where a property is about what one of them computes, the function is
  modelled here from the words of the specification.
\<close>

subsection \<open>The referential-integrity check\<close>






subsection \<open>The top five products\<close>









subsection \<open>The cleaner\<close>

text \<open>
  Modelled from the spec: \<^verbatim>\<open>clean_all\<close> of \<^verbatim>\<open>aurelion.pipeline_utils\<close> is missing from the
  sources. The specification (sections 3 and 4.3): the cleaner works on each table by
  itself and returns the cleaned table with the counts of rows before and after. It drops
  the rows that repeat an identifier, keeping the first occurrence; it drops the rows
  whose numeric fields cannot be coerced or are negative (price at least 0, quantity
  above 0) and the rows whose date cannot be parsed; it trims the string fields and
  normalises the case of the fields that are categories, leaving the identifiers as they
  are. A field that cannot be coerced or parsed is \<open>None\<close> here. A line of detail is
  identified by its sale and its product.
\<close>

type_synonym fecha = "nat \<times> nat \<times> nat"

record 'n producto =
  pr_id :: int
  pr_nombre :: string
  pr_categoria :: string
  pr_precio :: "'n option"

record cliente =
  cl_id :: int
  cl_nombre :: string
  cl_email :: string
  cl_ciudad :: string
  cl_fecha_alta :: "fecha option"

record venta =
  ve_id :: int
  ve_fecha :: "fecha option"
  ve_cliente :: int
  ve_medio_pago :: string
  ve_canal :: string

record 'n linea =
  li_venta :: int
  li_producto :: int
  li_cantidad :: "'n option"
  li_precio :: "'n option"
  li_importe :: "'n option"
  li_nombre :: "string option"

text \<open>The first row of every identifier, in the original order.\<close>

fun primeras :: "('r \<Rightarrow> 'k) \<Rightarrow> 'k list \<Rightarrow> 'r list \<Rightarrow> 'r list" where
  "primeras ident vistos [] = []"
| "primeras ident vistos (r # rs) =
     (if ident r \<in> set vistos then primeras ident vistos rs
      else r # primeras ident (ident r # vistos) rs)"

definition limpiar_tabla ::
  "('r \<Rightarrow> 'k) \<Rightarrow> ('r \<Rightarrow> bool) \<Rightarrow> ('r \<Rightarrow> 'r) \<Rightarrow> 'r list \<Rightarrow> 'r list \<times> nat \<times> nat" where
  "limpiar_tabla ident valida normaliza rs =
     (let limpias = map normaliza (filter valida (primeras ident [] rs))
      in (limpias, length rs, length limpias))"

definition recortar :: "string \<Rightarrow> string" where
  "recortar s = rev (dropWhile (\<lambda>c. c = CHR '' '') (rev (dropWhile (\<lambda>c. c = CHR '' '') s)))"

definition no_negativo :: "'n::{zero, ord} option \<Rightarrow> bool" where
  "no_negativo x = (case x of None \<Rightarrow> False | Some v \<Rightarrow> 0 \<le> v)"

definition positivo :: "'n::{zero, ord} option \<Rightarrow> bool" where
  "positivo x = (case x of None \<Rightarrow> False | Some v \<Rightarrow> 0 < v)"

definition producto_valido :: "'n::{zero, ord} producto \<Rightarrow> bool" where
  "producto_valido p = no_negativo (pr_precio p)"

definition cliente_valido :: "cliente \<Rightarrow> bool" where
  "cliente_valido c = (cl_fecha_alta c \<noteq> None)"

definition venta_valida :: "venta \<Rightarrow> bool" where
  "venta_valida v = (ve_fecha v \<noteq> None)"

definition linea_valida :: "'n::{zero, ord} linea \<Rightarrow> bool" where
  "linea_valida l =
     (positivo (li_cantidad l) \<and> no_negativo (li_precio l) \<and> li_importe l \<noteq> None)"

definition producto_normal :: "(string \<Rightarrow> string) \<Rightarrow> 'n producto \<Rightarrow> 'n producto" where
  "producto_normal caso p =
     p\<lparr>pr_nombre := recortar (pr_nombre p), pr_categoria := caso (recortar (pr_categoria p))\<rparr>"

definition cliente_normal :: "cliente \<Rightarrow> cliente" where
  "cliente_normal c =
     c\<lparr>cl_nombre := recortar (cl_nombre c), cl_email := recortar (cl_email c),
       cl_ciudad := recortar (cl_ciudad c)\<rparr>"

definition venta_normal :: "(string \<Rightarrow> string) \<Rightarrow> venta \<Rightarrow> venta" where
  "venta_normal caso v =
     v\<lparr>ve_medio_pago := caso (recortar (ve_medio_pago v)), ve_canal := caso (recortar (ve_canal v))\<rparr>"

definition linea_normal :: "'n linea \<Rightarrow> 'n linea" where
  "linea_normal l = l\<lparr>li_nombre := map_option recortar (li_nombre l)\<rparr>"

definition clave_linea :: "'n linea \<Rightarrow> int \<times> int" where
  "clave_linea l = (li_venta l, li_producto l)"

text \<open>
  The four cleaned tables and, for each table, the counts of rows before and after.
  \<open>caso\<close> is the normalisation of the case of a category, which the specification
  leaves open.
\<close>

definition limpiar_todo ::
  "(string \<Rightarrow> string) \<Rightarrow> 'n::{zero, ord} producto list \<Rightarrow> cliente list \<Rightarrow> venta list \<Rightarrow> 'n linea list
     \<Rightarrow> ('n producto list \<times> cliente list \<times> venta list \<times> 'n linea list) \<times> (string \<times> nat \<times> nat) list" where
  "limpiar_todo caso ps cs vs ls =
     (let p = limpiar_tabla pr_id producto_valido (producto_normal caso) ps;
          c = limpiar_tabla cl_id cliente_valido cliente_normal cs;
          v = limpiar_tabla ve_id venta_valida (venta_normal caso) vs;
          l = limpiar_tabla clave_linea linea_valida linea_normal ls
      in ((fst p, fst c, fst v, fst l),
          [(''productos'', snd p), (''clientes'', snd c), (''ventas'', snd v), (''detalle'', snd l)]))"

text \<open>
  What the cleaned rows \<open>rs'\<close> of the rows \<open>rs\<close> must be: no identifier twice, and
  exactly the normalised first occurrences that are valid.
\<close>

definition unicas_y_primeras ::
  "('r \<Rightarrow> 'k) \<Rightarrow> ('r \<Rightarrow> bool) \<Rightarrow> ('r \<Rightarrow> 'r) \<Rightarrow> 'r list \<Rightarrow> 'r list \<Rightarrow> bool" where
  "unicas_y_primeras ident valida normaliza rs rs' \<longleftrightarrow>
     distinct (map ident rs')
     \<and> (\<forall>r'. r' \<in> set rs' \<longleftrightarrow>
           (\<exists>r. find (\<lambda>x. ident x = ident r') rs = Some r \<and> valida r \<and> r' = normaliza r))"

text \<open>Tables with repeated identifiers and invalid rows, for a concrete cleaning.\<close>

definition ej_productos_crudos :: "int producto list" where
  "ej_productos_crudos =
     [\<lparr>pr_id = 1, pr_nombre = '' Bread'', pr_categoria = ''Bakery '', pr_precio = Some 2\<rparr>,
      \<lparr>pr_id = 1, pr_nombre = ''Loaf'', pr_categoria = ''Bakery'', pr_precio = Some 3\<rparr>,
      \<lparr>pr_id = 2, pr_nombre = ''Milk'', pr_categoria = ''Dairy'', pr_precio = None\<rparr>,
      \<lparr>pr_id = 3, pr_nombre = ''Eggs'', pr_categoria = ''Dairy'', pr_precio = Some 4\<rparr>]"

definition ej_clientes_crudos :: "cliente list" where
  "ej_clientes_crudos =
     [\<lparr>cl_id = 10, cl_nombre = ''Ana'', cl_email = ''ana@example.org'', cl_ciudad = ''Lima'',
       cl_fecha_alta = Some (2024, 1, 1)\<rparr>,
      \<lparr>cl_id = 10, cl_nombre = ''Ana B'', cl_email = ''anab@example.org'', cl_ciudad = ''Lima'',
       cl_fecha_alta = Some (2024, 2, 1)\<rparr>]"

definition ej_ventas_crudas :: "venta list" where
  "ej_ventas_crudas =
     [\<lparr>ve_id = 100, ve_fecha = Some (2025, 1, 5), ve_cliente = 10, ve_medio_pago = ''cash'',
       ve_canal = ''store''\<rparr>,
      \<lparr>ve_id = 101, ve_fecha = None, ve_cliente = 10, ve_medio_pago = ''card'',
       ve_canal = ''store''\<rparr>]"

definition ej_lineas_crudas :: "int linea list" where
  "ej_lineas_crudas =
     [\<lparr>li_venta = 100, li_producto = 1, li_cantidad = Some 3, li_precio = Some 2,
       li_importe = Some 6, li_nombre = None\<rparr>,
      \<lparr>li_venta = 100, li_producto = 1, li_cantidad = Some 1, li_precio = Some 2,
       li_importe = Some 2, li_nombre = None\<rparr>,
      \<lparr>li_venta = 100, li_producto = 3, li_cantidad = Some 0, li_precio = Some 4,
       li_importe = Some 0, li_nombre = None\<rparr>]"

section \<open>Properties\<close>

subsection \<open>Runs\<close>

lemma valor_luego: "valor (luego m f) = (case valor m of Inl e \<Rightarrow> Inl e | Inr x \<Rightarrow> valor (f x))"
  by (simp add: valor_def luego_def split: sum.splits)

lemma traza_luego: "traza (luego m f) = traza m @ (case valor m of Inl e \<Rightarrow> [] | Inr x \<Rightarrow> traza (f x))"
  by (simp add: valor_def traza_def luego_def split: sum.splits)

lemma valor_retorna: "valor (retorna x) = Inr x" by (simp add: valor_def retorna_def)
lemma traza_retorna: "traza (retorna x) = []" by (simp add: traza_def retorna_def)
lemma valor_lanza: "valor (lanza e) = Inl e" by (simp add: valor_def lanza_def)
lemma traza_lanza: "traza (lanza e) = []" by (simp add: traza_def lanza_def)
lemma valor_emite: "valor (emite ev) = Inr ()" by (simp add: valor_def emite_def)
lemma traza_emite: "traza (emite ev) = [ev]" by (simp add: traza_def emite_def)
lemma valor_llama: "valor (llama r) = r" by (simp add: valor_def llama_def)
lemma traza_llama: "traza (llama r) = []" by (simp add: traza_def llama_def)

lemmas corrida_simps = valor_luego traza_luego valor_retorna traza_retorna valor_lanza traza_lanza
  valor_emite traza_emite valor_llama traza_llama

subsection \<open>Schema validation\<close>

lemma valor_validar_tabla:
  assumes "set req \<inter> set (opcionales_de n) = {}"
  shows "valor (validar_tabla n req cs) =
     (if set req \<subseteq> set cs then Inr () else Inl (ValueError n (filter (\<lambda>c. c \<notin> set cs) req)))"
proof -
  have eq: "filter (\<lambda>c. c \<notin> set (opcionales_de n)) (filter (\<lambda>c. c \<notin> set cs) req)
      = filter (\<lambda>c. c \<notin> set cs) req"
    using assms by (auto intro!: filter_cong)
  have "filter (\<lambda>c. c \<notin> set cs) req = [] \<longleftrightarrow> set req \<subseteq> set cs"
    by (auto simp: filter_empty_conv)
  then show ?thesis
    by (simp add: validar_tabla_def Let_def eq corrida_simps manejar_error_def del: filter_filter)
qed

lemma traza_validar_tabla_ok:
  assumes "valor (validar_tabla n req cs) = Inr ()"
  shows "traza (validar_tabla n req cs) =
     (if set (opcionales_de n) \<subseteq> set cs then []
      else [Advertencia ''optional_column_missing'' n (filter (\<lambda>c. c \<notin> set cs) (opcionales_de n))])"
proof -
  have "filter (\<lambda>c. c \<notin> set cs) (opcionales_de n) = [] \<longleftrightarrow> set (opcionales_de n) \<subseteq> set cs"
    by (auto simp: filter_empty_conv)
  then show ?thesis using assms
    by (auto simp add: validar_tabla_def Let_def corrida_simps manejar_error_def split: if_splits)
qed

lemma valor_validar_bucle:
  assumes "\<forall>(n, req) \<in> set ts. set req \<inter> set (opcionales_de n) = {}"
  shows "valor (validar_bucle cols ts) =
     (case find (\<lambda>(n, req). \<not> set req \<subseteq> set (cols n)) ts of
        None \<Rightarrow> Inr ()
      | Some (n, req) \<Rightarrow> Inl (ValueError n (filter (\<lambda>c. c \<notin> set (cols n)) req)))"
  using assms
proof (induction ts)
  case Nil
  then show ?case by (simp add: corrida_simps)
next
  case (Cons a ts)
  obtain n req where a: "a = (n, req)" by (cases a)
  from Cons.prems a have d: "set req \<inter> set (opcionales_de n) = {}" by simp
  from Cons.prems have "\<forall>(n, req) \<in> set ts. set req \<inter> set (opcionales_de n) = {}" by simp
  with Cons.IH show ?case
    by (simp add: a corrida_simps valor_validar_tabla [OF d])
qed

lemma traza_validar_bucle_ok:
  assumes "valor (validar_bucle cols ts) = Inr ()"
  shows "traza (validar_bucle cols ts) =
     concat (map (\<lambda>(n, req).
       if set (opcionales_de n) \<subseteq> set (cols n) then []
       else [Advertencia ''optional_column_missing'' n
              (filter (\<lambda>c. c \<notin> set (cols n)) (opcionales_de n))]) ts)"
  using assms
proof (induction ts)
  case Nil
  then show ?case by (simp add: corrida_simps)
next
  case (Cons a ts)
  obtain n req where a: "a = (n, req)" by (cases a)
  from Cons.prems a have v: "valor (validar_tabla n req (cols n)) = Inr ()"
    by (simp add: corrida_simps split: sum.splits)
  with Cons.prems a have "valor (validar_bucle cols ts) = Inr ()"
    by (simp add: corrida_simps)
  with Cons.IH show ?case
    by (simp add: a corrida_simps v traza_validar_tabla_ok [OF v])
qed

lemma esperadas_sin_opcionales:
  "\<forall>(n, req) \<in> set columnas_esperadas. set req \<inter> set (opcionales_de n) = {}"
  by (simp add: columnas_esperadas_def opcionales_de_def columnas_opcionales_def)

lemma opcionales_de_simps:
  "opcionales_de ''productos'' = []" "opcionales_de ''clientes'' = []"
  "opcionales_de ''ventas'' = []" "opcionales_de ''detalle'' = [''nombre_producto'']"
  by (simp_all add: opcionales_de_def columnas_opcionales_def)

lemma find_Some_partes:
  assumes "find P xs = Some x"
  shows "\<exists>antes despues. xs = antes @ x # despues \<and> (\<forall>y \<in> set antes. \<not> P y) \<and> P x"
  using assms
proof (induction xs)
  case Nil
  then show ?case by simp
next
  case (Cons a xs)
  show ?case
  proof (cases "P a")
    case True
    with Cons.prems have "a = x" by simp
    with True show ?thesis by (intro exI [of _ "[]"] exI [of _ xs]) simp
  next
    case False
    with Cons.prems have "find P xs = Some x" by simp
    with Cons.IH obtain antes despues
      where "xs = antes @ x # despues" "\<forall>y \<in> set antes. \<not> P y" "P x" by blast
    with False show ?thesis
      by (intro exI [of _ "a # antes"] exI [of _ despues]) simp
  qed
qed

text \<open>
  Claim C4. For all four loaded tables, the validation of the columns raises if and only
  if a required column of some table is absent. The error then names the first table, in
  the order productos, clientes, ventas, detalle, that lacks a required column, and lists
  exactly the required columns that this table lacks. When the validation raises nothing,
  the only event is the warning that lists the optional column \<^verbatim>\<open>nombre_producto\<close> of
  detalle, logged exactly when detalle lacks it; and whether detalle has the optional
  column never changes the outcome.
\<close>

theorem validacion_de_columnas:
  "((\<exists>e. valor (validar_columnas P C V D) = Inl e) \<longleftrightarrow>
      (\<exists>(n, req) \<in> set columnas_esperadas. \<not> set req \<subseteq> set (columns (tabla_de P C V D n))))
   \<and> (\<forall>e. valor (validar_columnas P C V D) = Inl e \<longrightarrow>
        (\<exists>antes n req despues falt.
           columnas_esperadas = antes @ (n, req) # despues
           \<and> (\<forall>(n', req') \<in> set antes. set req' \<subseteq> set (columns (tabla_de P C V D n')))
           \<and> e = ValueError n falt \<and> falt \<noteq> []
           \<and> set falt = set req - set (columns (tabla_de P C V D n))))
   \<and> (valor (validar_columnas P C V D) = Inr () \<longrightarrow>
        traza (validar_columnas P C V D) =
          (if ''nombre_producto'' \<in> set (columns D) then []
           else [Advertencia ''optional_column_missing'' ''detalle'' [''nombre_producto'']]))
   \<and> (\<forall>D'. set (columns D') - {''nombre_producto''} = set (columns D) - {''nombre_producto''} \<longrightarrow>
        valor (validar_columnas P C V D') = valor (validar_columnas P C V D))"
  (is "?A \<and> ?B \<and> ?C \<and> ?D")
proof -
  define cols where "cols = (\<lambda>n. columns (tabla_de P C V D n))"
  define malo where "malo = (\<lambda>(n, req). \<not> set req \<subseteq> set (cols n))"
  have v: "valor (validar_columnas P C V D) =
     (case find malo columnas_esperadas of
        None \<Rightarrow> Inr ()
      | Some (n, req) \<Rightarrow> Inl (ValueError n (filter (\<lambda>c. c \<notin> set (cols n)) req)))"
    unfolding validar_columnas_def cols_def malo_def
    by (rule valor_validar_bucle [OF esperadas_sin_opcionales])
  have A: ?A
  proof
    assume "\<exists>e. valor (validar_columnas P C V D) = Inl e"
    then obtain x where "find malo columnas_esperadas = Some x"
      using v by (auto split: option.splits)
    then have "x \<in> set columnas_esperadas" "malo x"
      by (auto simp: find_Some_iff)
    then show "\<exists>(n, req) \<in> set columnas_esperadas. \<not> set req \<subseteq> set (columns (tabla_de P C V D n))"
      unfolding malo_def cols_def by blast
  next
    assume "\<exists>(n, req) \<in> set columnas_esperadas. \<not> set req \<subseteq> set (columns (tabla_de P C V D n))"
    then have "\<exists>x \<in> set columnas_esperadas. malo x"
      unfolding malo_def cols_def by blast
    then have "find malo columnas_esperadas \<noteq> None"
      by (auto simp add: find_None_iff)
    then show "\<exists>e. valor (validar_columnas P C V D) = Inl e"
      using v by (auto split: option.splits)
  qed
  have B: ?B
  proof (intro allI impI)
    fix e assume e: "valor (validar_columnas P C V D) = Inl e"
    then obtain n req where f: "find malo columnas_esperadas = Some (n, req)"
      and e': "e = ValueError n (filter (\<lambda>c. c \<notin> set (cols n)) req)"
      using v by (auto split: option.splits)
    from find_Some_partes [OF f] obtain antes despues
      where p: "columnas_esperadas = antes @ (n, req) # despues"
        "\<forall>y \<in> set antes. \<not> malo y" "malo (n, req)" by blast
    from p(2) have a: "\<forall>(n', req') \<in> set antes. set req' \<subseteq> set (columns (tabla_de P C V D n'))"
      unfolding malo_def cols_def by auto
    from p(3) have ne: "filter (\<lambda>c. c \<notin> set (cols n)) req \<noteq> []"
      unfolding malo_def by (auto simp: filter_empty_conv)
    have s: "set (filter (\<lambda>c. c \<notin> set (cols n)) req) = set req - set (columns (tabla_de P C V D n))"
      unfolding cols_def by auto
    from p(1) a e' ne s
    show "\<exists>antes n req despues falt.
           columnas_esperadas = antes @ (n, req) # despues
           \<and> (\<forall>(n', req') \<in> set antes. set req' \<subseteq> set (columns (tabla_de P C V D n')))
           \<and> e = ValueError n falt \<and> falt \<noteq> []
           \<and> set falt = set req - set (columns (tabla_de P C V D n))"
      by blast
  qed
  have C: ?C
  proof
    assume ok: "valor (validar_columnas P C V D) = Inr ()"
    then have "valor (validar_bucle cols columnas_esperadas) = Inr ()"
      unfolding validar_columnas_def cols_def .
    from traza_validar_bucle_ok [OF this]
    show "traza (validar_columnas P C V D) =
          (if ''nombre_producto'' \<in> set (columns D) then []
           else [Advertencia ''optional_column_missing'' ''detalle'' [''nombre_producto'']])"
      unfolding validar_columnas_def cols_def [symmetric]
      by (simp add: columnas_esperadas_def opcionales_de_simps cols_def tabla_de_def)
  qed
  have D: ?D
  proof (intro allI impI)
    fix D' :: "'a dataframe"
    assume h: "set (columns D') - {''nombre_producto''} = set (columns D) - {''nombre_producto''}"
    have m: "\<And>c. c \<noteq> ''nombre_producto'' \<Longrightarrow> c \<in> set (columns D') \<longleftrightarrow> c \<in> set (columns D)"
      using h by blast
    show "valor (validar_columnas P C V D') = valor (validar_columnas P C V D)"
      unfolding validar_columnas_def
      by (simp add: columnas_esperadas_def corrida_simps tabla_de_def
          valor_validar_tabla opcionales_de_simps m)
  qed
  from A B C D show ?thesis by blast
qed

subsection \<open>The name of the product in the lines of detail\<close>


lemma posicion_None: "x \<notin> set xs \<Longrightarrow> posicion x xs = None"
  by (induction xs) auto

















lemma ej_valida: "valor (validar_columnas ej_productos ej_clientes ej_ventas ej_detalle) = Inr ()"
  by (simp add: validar_columnas_def columnas_esperadas_def validar_tabla_def opcionales_de_simps
      tabla_de_def corrida_simps ej_productos_def ej_clientes_def ej_ventas_def ej_detalle_def marco_def)


subsection \<open>The stages of a run\<close>






lemma hoja_if: "hoja a \<Longrightarrow> hoja b \<Longrightarrow> hoja (if c then a else b)"
  by simp

lemma segura_if: "segura a \<Longrightarrow> segura b \<Longrightarrow> segura (if c then a else b)"
  by simp


















lemma etapas_intenta: "etapas m A \<Longrightarrow> etapas (intenta n m) A"
  by (auto simp add: etapas_def intenta_def valor_def traza_def marcas_def split: sum.splits)

lemma etapas_intenta_pipeline: "etapas m A \<Longrightarrow> etapas (intenta_pipeline m) A"
  by (auto simp add: etapas_def intenta_pipeline_def valor_def traza_def marcas_def split: sum.splits)

































subsection \<open>The concrete run\<close>












subsection \<open>Fast mode\<close>










subsection \<open>Witnesses\<close>

theorem validacion_de_columnas_witness:
  "valor (validar_columnas ej_productos ej_clientes ej_ventas ej_detalle) = Inr ()
   \<and> traza (validar_columnas ej_productos ej_clientes ej_ventas ej_detalle) =
       [Advertencia ''optional_column_missing'' ''detalle'' [''nombre_producto'']]
   \<and> (\<exists>e. valor (validar_columnas ej_productos
              (marco [''id_cliente'', ''nombre_cliente''] []) ej_ventas ej_detalle) = Inl e)
   \<and> valor (validar_columnas ej_productos
              (marco [''id_cliente'', ''nombre_cliente''] []) ej_ventas ej_detalle) =
       Inl (ValueError ''clientes'' [''email'', ''ciudad'', ''fecha_alta''])"
proof -
  note t = validacion_de_columnas [of ej_productos ej_clientes ej_ventas ej_detalle]
  have ok: "valor (validar_columnas ej_productos ej_clientes ej_ventas ej_detalle) = Inr ()"
    by (rule ej_valida)
  have "''nombre_producto'' \<notin> set (columns ej_detalle)"
    by (simp add: ej_detalle_def marco_def)
  with t ok have tr: "traza (validar_columnas ej_productos ej_clientes ej_ventas ej_detalle) =
       [Advertencia ''optional_column_missing'' ''detalle'' [''nombre_producto'']]"
    by simp
  note u = validacion_de_columnas [of ej_productos "marco [''id_cliente'', ''nombre_cliente''] []"
      ej_ventas ej_detalle]
  have "(''clientes'', [''id_cliente'', ''nombre_cliente'', ''email'', ''ciudad'', ''fecha_alta''])
      \<in> set columnas_esperadas"
    by (simp add: columnas_esperadas_def)
  moreover have "\<not> set [''id_cliente'', ''nombre_cliente'', ''email'', ''ciudad'', ''fecha_alta'']
      \<subseteq> set (columns (tabla_de ej_productos (marco [''id_cliente'', ''nombre_cliente''] [])
           ej_ventas ej_detalle ''clientes''))"
    by (simp add: tabla_de_def marco_def)
  ultimately have "\<exists>(n, req) \<in> set columnas_esperadas.
      \<not> set req \<subseteq> set (columns (tabla_de ej_productos (marco [''id_cliente'', ''nombre_cliente''] [])
           ej_ventas ej_detalle n))"
    by blast
  with u have ex: "\<exists>e. valor (validar_columnas ej_productos
              (marco [''id_cliente'', ''nombre_cliente''] []) ej_ventas ej_detalle) = Inl e"
    by blast
  have er: "valor (validar_columnas ej_productos
              (marco [''id_cliente'', ''nombre_cliente''] []) ej_ventas ej_detalle) =
       Inl (ValueError ''clientes'' [''email'', ''ciudad'', ''fecha_alta''])"
    by (simp add: validar_columnas_def columnas_esperadas_def validar_tabla_def opcionales_de_simps
      tabla_de_def corrida_simps manejar_error_def ej_productos_def ej_ventas_def ej_detalle_def marco_def)
  from ok tr ex er show ?thesis by blast
qed




subsection \<open>The integrity check in the pipeline\<close>

















subsection \<open>The top five products\<close>












subsection \<open>The cleaner\<close>

lemma primeras_mem:
  "r \<in> set (primeras ident vs rs) \<longleftrightarrow>
     ident r \<notin> set vs \<and> find (\<lambda>x. ident x = ident r) rs = Some r"
proof (induction ident vs rs rule: primeras.induct)
  case (1 ident vistos)
  show ?case by simp
next
  case (2 ident vistos a rs)
  show ?case
  proof (cases "ident a \<in> set vistos")
    case True
    with 2 show ?thesis by auto
  next
    case False
    with 2 show ?thesis by auto
  qed
qed

lemma primeras_distinct: "distinct (map ident (primeras ident vs rs))"
proof (induction ident vs rs rule: primeras.induct)
  case (1 ident vistos)
  show ?case by simp
next
  case (2 ident vistos a rs)
  have "ident a \<notin> ident ` set (primeras ident (ident a # vistos) rs)"
    by (auto simp: primeras_mem)
  with 2 show ?case by simp
qed

lemma primeras_subseq: "subseq (primeras ident vs rs) rs"
  by (induction ident vs rs rule: primeras.induct) (auto intro: subseq_Cons')

lemma limpiar_tabla_unicas:
  assumes "\<And>r. ident (normaliza r) = ident r"
  shows "unicas_y_primeras ident valida normaliza rs (fst (limpiar_tabla ident valida normaliza rs))"
proof -
  let ?fs = "filter valida (primeras ident [] rs)"
  have m: "map ident (map normaliza ?fs) = map ident ?fs"
    using assms by simp
  have d: "distinct (map ident (map normaliza ?fs))"
    unfolding m using primeras_distinct [of ident "[]" rs] by (simp add: distinct_map_filter)
  have e: "r' \<in> set (map normaliza ?fs) \<longleftrightarrow>
      (\<exists>r. find (\<lambda>x. ident x = ident r') rs = Some r \<and> valida r \<and> r' = normaliza r)" for r'
  proof
    assume "r' \<in> set (map normaliza ?fs)"
    then obtain r where r: "r \<in> set (primeras ident [] rs)" "valida r" "r' = normaliza r" by auto
    from r(1) have "find (\<lambda>x. ident x = ident r) rs = Some r" by (simp add: primeras_mem)
    with r(2,3) assms show "\<exists>r. find (\<lambda>x. ident x = ident r') rs = Some r \<and> valida r \<and> r' = normaliza r"
      by auto
  next
    assume "\<exists>r. find (\<lambda>x. ident x = ident r') rs = Some r \<and> valida r \<and> r' = normaliza r"
    then obtain r where r: "find (\<lambda>x. ident x = ident r') rs = Some r" "valida r" "r' = normaliza r"
      by blast
    from r(1,3) assms have "find (\<lambda>x. ident x = ident r) rs = Some r" by simp
    then have "r \<in> set (primeras ident [] rs)" by (simp add: primeras_mem)
    with r(2,3) show "r' \<in> set (map normaliza ?fs)" by auto
  qed
  from d e show ?thesis
    by (simp only: unicas_y_primeras_def limpiar_tabla_def Let_def fst_conv) blast
qed

lemma limpiar_tabla_cuentas:
  "snd (limpiar_tabla ident valida normaliza rs) =
     (length rs, length (fst (limpiar_tabla ident valida normaliza rs)))
   \<and> length (fst (limpiar_tabla ident valida normaliza rs)) \<le> length rs"
proof -
  have "length (filter valida (primeras ident [] rs)) \<le> length (primeras ident [] rs)" by simp
  also have "\<dots> \<le> length rs" using primeras_subseq [of ident "[]" rs]
    by (rule list_emb_length)
  finally show ?thesis by (simp add: limpiar_tabla_def Let_def)
qed

lemma limpiar_tabla_orden:
  assumes "\<And>r. ident (normaliza r) = ident r"
  shows "subseq (map ident (fst (limpiar_tabla ident valida normaliza rs))) (map ident rs)"
proof -
  have "subseq (filter valida (primeras ident [] rs)) rs"
    using subseq_order.trans [OF subseq_filter_left primeras_subseq] .
  then have "subseq (map ident (filter valida (primeras ident [] rs))) (map ident rs)"
    by (rule subseq_map)
  then show ?thesis using assms by (simp add: limpiar_tabla_def Let_def comp_def)
qed

lemma unicas_distinct: "unicas_y_primeras ident valida normaliza rs rs' \<Longrightarrow> distinct (map ident rs')"
  by (simp add: unicas_y_primeras_def)

lemma normal_conserva:
  "pr_id (producto_normal caso p) = pr_id p"
  "cl_id (cliente_normal c) = cl_id c"
  "ve_id (venta_normal caso v) = ve_id v"
  "clave_linea (linea_normal l) = clave_linea l"
  by (simp_all add: producto_normal_def cliente_normal_def venta_normal_def linea_normal_def
      clave_linea_def)

text \<open>
  Claim C7. For all four tables, the cleaner as the specification describes it returns
  rows of which no two share an identifier: the cleaned rows are exactly the normalised
  first occurrences, in the original order, of the identifiers whose first occurrence is
  valid. The counts returned with each table are its numbers of rows before and after.
\<close>

theorem identificadores_unicos:
  "limpiar_todo caso ps cs vs ls = ((ps', cs', vs', ls'), stats) \<longrightarrow>
     distinct (map pr_id ps') \<and> distinct (map cl_id cs')
     \<and> distinct (map ve_id vs') \<and> distinct (map clave_linea ls')
     \<and> unicas_y_primeras pr_id producto_valido (producto_normal caso) ps ps'
     \<and> unicas_y_primeras cl_id cliente_valido cliente_normal cs cs'
     \<and> unicas_y_primeras ve_id venta_valida (venta_normal caso) vs vs'
     \<and> unicas_y_primeras clave_linea linea_valida linea_normal ls ls'
     \<and> subseq (map pr_id ps') (map pr_id ps) \<and> subseq (map cl_id cs') (map cl_id cs)
     \<and> subseq (map ve_id vs') (map ve_id vs) \<and> subseq (map clave_linea ls') (map clave_linea ls)
     \<and> stats = [(''productos'', length ps, length ps'), (''clientes'', length cs, length cs'),
                (''ventas'', length vs, length vs'), (''detalle'', length ls, length ls')]"
proof
  assume h: "limpiar_todo caso ps cs vs ls = ((ps', cs', vs', ls'), stats)"
  then have p: "ps' = fst (limpiar_tabla pr_id producto_valido (producto_normal caso) ps)"
    and c: "cs' = fst (limpiar_tabla cl_id cliente_valido cliente_normal cs)"
    and v: "vs' = fst (limpiar_tabla ve_id venta_valida (venta_normal caso) vs)"
    and l: "ls' = fst (limpiar_tabla clave_linea linea_valida linea_normal ls)"
    and s: "stats = [(''productos'', snd (limpiar_tabla pr_id producto_valido (producto_normal caso) ps)),
         (''clientes'', snd (limpiar_tabla cl_id cliente_valido cliente_normal cs)),
         (''ventas'', snd (limpiar_tabla ve_id venta_valida (venta_normal caso) vs)),
         (''detalle'', snd (limpiar_tabla clave_linea linea_valida linea_normal ls))]"
    by (simp_all add: limpiar_todo_def Let_def)
  have up: "unicas_y_primeras pr_id producto_valido (producto_normal caso) ps ps'"
    unfolding p by (rule limpiar_tabla_unicas) (rule normal_conserva)
  have uc: "unicas_y_primeras cl_id cliente_valido cliente_normal cs cs'"
    unfolding c by (rule limpiar_tabla_unicas) (rule normal_conserva)
  have uv: "unicas_y_primeras ve_id venta_valida (venta_normal caso) vs vs'"
    unfolding v by (rule limpiar_tabla_unicas) (rule normal_conserva)
  have ul: "unicas_y_primeras clave_linea linea_valida linea_normal ls ls'"
    unfolding l by (rule limpiar_tabla_unicas) (rule normal_conserva)
  have op: "subseq (map pr_id ps') (map pr_id ps)"
    unfolding p by (rule limpiar_tabla_orden) (rule normal_conserva)
  have oc: "subseq (map cl_id cs') (map cl_id cs)"
    unfolding c by (rule limpiar_tabla_orden) (rule normal_conserva)
  have ov: "subseq (map ve_id vs') (map ve_id vs)"
    unfolding v by (rule limpiar_tabla_orden) (rule normal_conserva)
  have ol: "subseq (map clave_linea ls') (map clave_linea ls)"
    unfolding l by (rule limpiar_tabla_orden) (rule normal_conserva)
  have st: "stats = [(''productos'', length ps, length ps'), (''clientes'', length cs, length cs'),
                (''ventas'', length vs, length vs'), (''detalle'', length ls, length ls')]"
    unfolding s p c v l by (simp add: limpiar_tabla_cuentas)
  from up uc uv ul op oc ov ol st unicas_distinct [OF up] unicas_distinct [OF uc]
    unicas_distinct [OF uv] unicas_distinct [OF ul]
  show "distinct (map pr_id ps') \<and> distinct (map cl_id cs')
     \<and> distinct (map ve_id vs') \<and> distinct (map clave_linea ls')
     \<and> unicas_y_primeras pr_id producto_valido (producto_normal caso) ps ps'
     \<and> unicas_y_primeras cl_id cliente_valido cliente_normal cs cs'
     \<and> unicas_y_primeras ve_id venta_valida (venta_normal caso) vs vs'
     \<and> unicas_y_primeras clave_linea linea_valida linea_normal ls ls'
     \<and> subseq (map pr_id ps') (map pr_id ps) \<and> subseq (map cl_id cs') (map cl_id cs)
     \<and> subseq (map ve_id vs') (map ve_id vs) \<and> subseq (map clave_linea ls') (map clave_linea ls)
     \<and> stats = [(''productos'', length ps, length ps'), (''clientes'', length cs, length cs'),
                (''ventas'', length vs, length vs'), (''detalle'', length ls, length ls')]"
    by blast
qed

lemma ej_limpiar_todo:
  "limpiar_todo id ej_productos_crudos ej_clientes_crudos ej_ventas_crudas ej_lineas_crudas =
     (([\<lparr>pr_id = 1, pr_nombre = ''Bread'', pr_categoria = ''Bakery'', pr_precio = Some 2\<rparr>,
        \<lparr>pr_id = 3, pr_nombre = ''Eggs'', pr_categoria = ''Dairy'', pr_precio = Some 4\<rparr>],
       [\<lparr>cl_id = 10, cl_nombre = ''Ana'', cl_email = ''ana@example.org'', cl_ciudad = ''Lima'',
         cl_fecha_alta = Some (2024, 1, 1)\<rparr>],
       [\<lparr>ve_id = 100, ve_fecha = Some (2025, 1, 5), ve_cliente = 10, ve_medio_pago = ''cash'',
         ve_canal = ''store''\<rparr>],
       [\<lparr>li_venta = 100, li_producto = 1, li_cantidad = Some 3, li_precio = Some 2,
         li_importe = Some 6, li_nombre = None\<rparr>]),
      [(''productos'', 4, 2), (''clientes'', 2, 1), (''ventas'', 2, 1), (''detalle'', 3, 1)])"
  by (simp add: limpiar_todo_def limpiar_tabla_def Let_def
      ej_productos_crudos_def ej_clientes_crudos_def ej_ventas_crudas_def ej_lineas_crudas_def
      producto_valido_def cliente_valido_def venta_valida_def linea_valida_def
      producto_normal_def cliente_normal_def venta_normal_def linea_normal_def
      no_negativo_def positivo_def clave_linea_def recortar_def)

theorem identificadores_unicos_witness:
  "limpiar_todo id ej_productos_crudos ej_clientes_crudos ej_ventas_crudas ej_lineas_crudas =
     (([\<lparr>pr_id = 1, pr_nombre = ''Bread'', pr_categoria = ''Bakery'', pr_precio = Some 2\<rparr>,
        \<lparr>pr_id = 3, pr_nombre = ''Eggs'', pr_categoria = ''Dairy'', pr_precio = Some 4\<rparr>],
       [\<lparr>cl_id = 10, cl_nombre = ''Ana'', cl_email = ''ana@example.org'', cl_ciudad = ''Lima'',
         cl_fecha_alta = Some (2024, 1, 1)\<rparr>],
       [\<lparr>ve_id = 100, ve_fecha = Some (2025, 1, 5), ve_cliente = 10, ve_medio_pago = ''cash'',
         ve_canal = ''store''\<rparr>],
       [\<lparr>li_venta = 100, li_producto = 1, li_cantidad = Some 3, li_precio = Some 2,
         li_importe = Some 6, li_nombre = None\<rparr>]),
      [(''productos'', 4, 2), (''clientes'', 2, 1), (''ventas'', 2, 1), (''detalle'', 3, 1)])
   \<and> distinct (map pr_id (fst (fst (limpiar_todo id ej_productos_crudos ej_clientes_crudos
         ej_ventas_crudas ej_lineas_crudas))))
   \<and> \<not> distinct (map pr_id ej_productos_crudos)"
proof -
  note e = ej_limpiar_todo
  from identificadores_unicos [where caso = id and ps = ej_productos_crudos
      and cs = ej_clientes_crudos and vs = ej_ventas_crudas and ls = ej_lineas_crudas, THEN mp, OF e]
  have "distinct (map pr_id [\<lparr>pr_id = 1, pr_nombre = ''Bread'', pr_categoria = ''Bakery'', pr_precio = Some (2 :: int)\<rparr>,
        \<lparr>pr_id = 3, pr_nombre = ''Eggs'', pr_categoria = ''Dairy'', pr_precio = Some 4\<rparr>])"
    by blast
  then have d: "distinct (map pr_id (fst (fst (limpiar_todo id ej_productos_crudos ej_clientes_crudos
         ej_ventas_crudas ej_lineas_crudas))))"
    by (simp only: e fst_conv)
  have n: "\<not> distinct (map pr_id ej_productos_crudos)"
    by (simp add: ej_productos_crudos_def)
  from e d n show ?thesis by blast
qed

end
